theory Spec2Isabelle
  imports Main
begin

section \<open>Python values and exceptions\<close>

text \<open>
  The exceptions that \<open>gwpy/detector/channel.py\<close> can raise, explicitly or through an
  implicit check of the language (tuple unpacking, list indexing, dictionary lookup,
  attribute lookup).
\<close>

datatype exn = TypeError | ValueError | KeyError | IndexError | AttributeError

text \<open>
  The dynamically typed values that reach the metadata attributes of a channel.
  \<open>PyType n\<close> is the type object named \<open>n\<close> (\<open>float\<close>, \<open>int\<close>, the builtin \<open>type\<close>
  itself). The last three are the objects of the external units library: \<open>PyUnit n\<close>
  is a unit that is an instance of its class \<open>Unit\<close>, \<open>PyUnitBase n\<close> a unit of another
  class of the library (as \<open>Unit('m')\<close> is), and \<open>PyQuantity q\<close> a quantity; the name and
  the number tell the objects apart.
\<close>

datatype pyval =
    PyNone
  | PyBool bool
  | PyInt int
  | PyStr string
  | PyType string
  | PyUnit string
  | PyUnitBase string
  | PyQuantity int

text \<open>
  The part of \<open>astropy.units\<close> that the channel class calls. It is not part of the
  repository, so it is a parameter of the model:
  \<open>mk_Quantity_Hz rate\<close> is \<open>aunits.Quantity(float(rate), unit=aunits.Hertz)\<close>,
  \<open>mk_Unit u\<close> is \<open>aunits.Unit(u)\<close>, and \<open>ext_truth\<close> is the truth value of an
  object of the library.
\<close>

record units_lib =
  mk_Quantity_Hz :: "pyval \<Rightarrow> exn + pyval"
  mk_Unit :: "pyval \<Rightarrow> exn + pyval"
  ext_truth :: "pyval \<Rightarrow> bool"

fun truthy :: "units_lib \<Rightarrow> pyval \<Rightarrow> bool" where
  "truthy L PyNone = False"
| "truthy L (PyBool b) = b"
| "truthy L (PyInt i) = (i \<noteq> 0)"
| "truthy L (PyStr s) = (s \<noteq> [])"
| "truthy L (PyType n) = True"
| "truthy L v = ext_truth L v"

text \<open>Python's \<open>a or b\<close>: the first operand when it is true, the second otherwise.\<close>

definition py_or :: "units_lib \<Rightarrow> pyval \<Rightarrow> pyval \<Rightarrow> pyval" where
  "py_or L a b = (if truthy L a then a else b)"

text \<open>\<open>isinstance(v, type)\<close> and \<open>isinstance(v, aunits.Unit)\<close>.\<close>

fun is_type :: "pyval \<Rightarrow> bool" where
  "is_type (PyType n) = True"
| "is_type v = False"

fun is_Unit :: "pyval \<Rightarrow> bool" where
  "is_Unit (PyUnit n) = True"
| "is_Unit v = False"

text \<open>The builtin \<open>type\<close> object.\<close>

definition builtin_type :: pyval where
  "builtin_type = PyType ''type''"

definition is_upper :: "char \<Rightarrow> bool" where
  "is_upper c = (c \<in> set ''ABCDEFGHIJKLMNOPQRSTUVWXYZ'')"

definition is_digit :: "char \<Rightarrow> bool" where
  "is_digit c = (c \<in> set ''0123456789'')"

text \<open>
  \<open>str.lower\<close> on one character. The characters of the model are the code points below
  256, of which the uppercase letters are 65 to 90, 192 to 214 and 216 to 222; the
  lowercase letter is 32 above.
\<close>

definition lower_char :: "char \<Rightarrow> char" where
  "lower_char c =
     (let n = (of_char c :: nat) in
      if (65 \<le> n \<and> n \<le> 90) \<or> (192 \<le> n \<and> n \<le> 214) \<or> (216 \<le> n \<and> n \<le> 222)
      then char_of (n + 32) else c)"

text \<open>\<open>v.lower()\<close>: only strings have the method.\<close>

fun py_lower :: "pyval \<Rightarrow> exn + pyval" where
  "py_lower (PyStr s) = Inr (PyStr (map lower_char s))"
| "py_lower v = Inl AttributeError"

section \<open>The channel name parser\<close>

text \<open>
  A name is a string of characters with code points below 256, on which \<open>[A-Z]\<close> is
  the 26 uppercase letters of ASCII and \<open>\d\<close> the 10 digits of ASCII.

  \<open>_re_ifo = re.compile("[A-Z]\d:")\<close>, used with \<open>match\<close>: the pattern is tried at the
  start of the string only.
\<close>

fun re_ifo_match :: "string \<Rightarrow> bool" where
  "re_ifo_match (a # d # c # rest) = (is_upper a \<and> is_digit d \<and> c = CHR '':'')"
| "re_ifo_match s = False"

text \<open>\<open>_re_cchar = re.compile("[-_]")\<close>: the characters that separate the tags.\<close>

definition is_cchar :: "char \<Rightarrow> bool" where
  "is_cchar c = (c = CHR ''-'' \<or> c = CHR ''_'')"

definition is_colon :: "char \<Rightarrow> bool" where
  "is_colon c = (c = CHR '':'')"

text \<open>
  Splitting a string at the first \<open>k\<close> characters that satisfy \<open>sep\<close>, as
  \<open>name.split(":", 1)\<close> and \<open>_re_cchar.split(name, maxsplit=3)\<close> do for a positive
  number of splits: the text after the last split is kept whole as the last element.
\<close>

fun split_upto :: "(char \<Rightarrow> bool) \<Rightarrow> nat \<Rightarrow> string \<Rightarrow> string list" where
  "split_upto sep 0 s = [s]"
| "split_upto sep (Suc k) s =
     (case dropWhile (\<lambda>c. \<not> sep c) s of
        [] \<Rightarrow> [s]
      | c # rest \<Rightarrow> takeWhile (\<lambda>c. \<not> sep c) s # split_upto sep k rest)"

text \<open>
  Lines 116 to 120, \<open># parse ifo\<close>: the pair of the ifo and the remaining name. The
  unpacking \<open>ifo,name = name.split(":",1)\<close> raises \<open>ValueError\<close> unless the split has
  exactly two elements.
\<close>

definition parse_ifo :: "string \<Rightarrow> exn + (string option \<times> string)" where
  "parse_ifo n =
     (if re_ifo_match n then
        (case split_upto is_colon 1 n of
           [i, r] \<Rightarrow> Inr (Some i, r)
         | _ \<Rightarrow> Inl ValueError)
      else Inr (None, n))"

text \<open>
  Lines 121 to 132, \<open># parse systems\<close>: \<open>tags[0]\<close> raises \<open>IndexError\<close> on an empty
  list.
\<close>

definition parse_systems ::
  "string option \<Rightarrow> string \<Rightarrow> exn + (string option \<times> string option \<times> string option \<times> string option)"
where
  "parse_systems i n =
     (let tags = split_upto is_cchar 3 n in
      case tags of
        [] \<Rightarrow> Inl IndexError
      | sys # _ \<Rightarrow>
          Inr (i, Some sys,
               (if length tags > 1 then Some (tags ! 1) else None),
               (if length tags > 2 then Some (tags ! 2) else None)))"

text \<open>
  \<open>parse_channel_name(name)\<close>. The argument is a string or \<open>None\<close>; \<open>not name\<close> holds
  for \<open>None\<close> and for the empty string.
\<close>

definition parse_channel_name ::
  "string option \<Rightarrow> exn + (string option \<times> string option \<times> string option \<times> string option)"
where
  "parse_channel_name nm =
     (case nm of
        None \<Rightarrow> Inr (None, None, None, None)
      | Some n \<Rightarrow>
          if n = [] then Inr (None, None, None, None)
          else (case parse_ifo n of
                  Inl e \<Rightarrow> Inl e
                | Inr (i, r) \<Rightarrow> parse_systems i r))"

section \<open>The channel class\<close>

text \<open>
  An object of class \<open>Channel\<close>: the name (attribute \<open>_name\<close>), the four components
  derived from it, and the metadata (attributes \<open>_sample_rate\<close>, \<open>_unit\<close>, \<open>_dtype\<close>
  and \<open>_model\<close>).
\<close>

record channel =
  name :: string
  ifo :: "string option"
  system :: "string option"
  subsystem :: "string option"
  signal :: "string option"
  sample_rate :: pyval
  unit :: pyval
  dtype :: pyval
  model :: pyval

text \<open>
  The setter of \<open>name\<close>. The names of the model are strings, on which \<open>str(n)\<close> is the
  identity.
\<close>

definition name_setter :: "channel \<Rightarrow> string \<Rightarrow> exn + channel" where
  "name_setter self n =
     (case parse_channel_name (Some n) of
        Inl e \<Rightarrow> Inl e
      | Inr (i, sy, sb, sg) \<Rightarrow>
          Inr (self\<lparr>name := n, ifo := i, system := sy, subsystem := sb, signal := sg\<rparr>))"

definition sample_rate_setter :: "units_lib \<Rightarrow> channel \<Rightarrow> pyval \<Rightarrow> exn + channel" where
  "sample_rate_setter L self rate =
     (if is_Unit rate then Inr (self\<lparr>sample_rate := rate\<rparr>)
      else if rate = PyNone then Inr (self\<lparr>sample_rate := PyNone\<rparr>)
      else (case mk_Quantity_Hz L rate of
              Inl e \<Rightarrow> Inl e
            | Inr q \<Rightarrow> Inr (self\<lparr>sample_rate := q\<rparr>)))"

definition unit_setter :: "units_lib \<Rightarrow> channel \<Rightarrow> pyval \<Rightarrow> exn + channel" where
  "unit_setter L self u =
     (if u = PyNone then Inr (self\<lparr>unit := PyNone\<rparr>)
      else (case mk_Unit L u of
              Inl e \<Rightarrow> Inl e
            | Inr v \<Rightarrow> Inr (self\<lparr>unit := v\<rparr>)))"

text \<open>\<open>self._model = mdl and mdl.lower() or mdl\<close>.\<close>

definition model_setter :: "units_lib \<Rightarrow> channel \<Rightarrow> pyval \<Rightarrow> exn + channel" where
  "model_setter L self mdl =
     (if truthy L mdl then
        (case py_lower mdl of
           Inl e \<Rightarrow> Inl e
         | Inr low \<Rightarrow> Inr (self\<lparr>model := py_or L low mdl\<rparr>))
      else Inr (self\<lparr>model := mdl\<rparr>))"

definition dtype_setter :: "channel \<Rightarrow> pyval \<Rightarrow> exn + channel" where
  "dtype_setter self ty =
     (if \<not> is_type ty then Inl TypeError
      else Inr (self\<lparr>dtype := ty\<rparr>))"

text \<open>
  The first argument of the constructor: a name, or another channel
  (\<open>isinstance(ch, Channel)\<close>).
\<close>

datatype channel_arg = FromName string | FromChannel channel

text \<open>
  The object \<open>__init__\<close> receives, before any attribute is assigned. Every field is
  assigned before \<open>__init__\<close> returns.
\<close>

definition new_object :: channel where
  "new_object =
     \<lparr>name = [], ifo = None, system = None, subsystem = None, signal = None,
      sample_rate = PyNone, unit = PyNone, dtype = PyNone, model = PyNone\<rparr>"

definition bind_exn :: "exn + 'a \<Rightarrow> ('a \<Rightarrow> exn + 'b) \<Rightarrow> exn + 'b" where
  "bind_exn r f = (case r of Inl e \<Rightarrow> Inl e | Inr v \<Rightarrow> f v)"

text \<open>
  \<open>Channel.__init__(self, ch, sample_rate, unit, dtype, model)\<close>. The five assignments
  go through the setters in the order of the source; the fourth is
  \<open>self.dtype = type\<close>, which assigns the builtin \<open>type\<close>.
\<close>

definition Channel_init ::
  "units_lib \<Rightarrow> channel_arg \<Rightarrow> pyval \<Rightarrow> pyval \<Rightarrow> pyval \<Rightarrow> pyval \<Rightarrow> exn + channel"
where
  "Channel_init L ch sample_rate0 unit0 dtype0 model0 =
     (let (ch1, sample_rate1, unit1, dtype1, model1) =
            (case ch of
               FromChannel src \<Rightarrow>
                 (name src,
                  py_or L sample_rate0 (sample_rate src),
                  py_or L unit0 (unit src),
                  py_or L dtype0 (dtype src),
                  py_or L model0 (model src))
             | FromName s \<Rightarrow> (s, sample_rate0, unit0, dtype0, model0))
      in bind_exn (name_setter new_object ch1) (\<lambda>self.
         bind_exn (sample_rate_setter L self sample_rate1) (\<lambda>self.
         bind_exn (unit_setter L self unit1) (\<lambda>self.
         bind_exn (dtype_setter self builtin_type) (\<lambda>self.
         model_setter L self model1)))))"

text \<open>
  \<open>Channel.fetch(self, start, end, host, port)\<close>. \<open>hosts\<close> is the dictionary
  \<open>nds.DEFAULT_HOSTS\<close>, from an ifo to a pair of a host and a port, and
  \<open>connect host port start stop n\<close> is what \<open>connection.fetch(start, end, n)\<close> returns
  on the connection \<open>nds.NDSConnection(host, port)\<close>; both belong to the module
  \<open>gwpy.io.nds\<close> and are parameters. The condition \<open>not host or port\<close> is
  \<open>(not host) or port\<close>.
\<close>

definition fetch ::
  "units_lib \<Rightarrow> (string option \<rightharpoonup> pyval \<times> pyval) \<Rightarrow>
   (pyval \<Rightarrow> pyval \<Rightarrow> 't \<Rightarrow> 't \<Rightarrow> string \<Rightarrow> exn + 'r) \<Rightarrow>
   channel \<Rightarrow> 't \<Rightarrow> 't \<Rightarrow> pyval \<Rightarrow> pyval \<Rightarrow> exn + 'r"
where
  "fetch L hosts connect self start stop host port =
     bind_exn
       (if \<not> truthy L host \<or> truthy L port then
          (case hosts (ifo self) of
             None \<Rightarrow> Inl KeyError
           | Some (dhost, dport) \<Rightarrow> Inr (py_or L host dhost, py_or L port dport))
        else Inr (host, port))
       (\<lambda>(host1, port1). connect host1 port1 start stop (name self))"

text \<open>
  The channels a program can hold: built by the constructor and changed by the
  setters of the class.
\<close>

inductive reachable :: "units_lib \<Rightarrow> channel \<Rightarrow> bool" for L :: units_lib where
  init: "Channel_init L ch sr u dt m = Inr c \<Longrightarrow> reachable L c"
| set_name: "reachable L c \<Longrightarrow> name_setter c n = Inr c' \<Longrightarrow> reachable L c'"
| set_sample_rate: "reachable L c \<Longrightarrow> sample_rate_setter L c v = Inr c' \<Longrightarrow> reachable L c'"
| set_unit: "reachable L c \<Longrightarrow> unit_setter L c v = Inr c' \<Longrightarrow> reachable L c'"
| set_dtype: "reachable L c \<Longrightarrow> dtype_setter c v = Inr c' \<Longrightarrow> reachable L c'"
| set_model: "reachable L c \<Longrightarrow> model_setter L c v = Inr c' \<Longrightarrow> reachable L c'"

text \<open>
  The channel of the test module: \<open>CHANNEL_NAME = 'X1:TEST-CHANNEL'\<close> and
  \<open>CHANNEL = Channel(CHANNEL_NAME)\<close>.
\<close>

definition CHANNEL_NAME :: string where
  "CHANNEL_NAME = ''X1:TEST-CHANNEL''"

definition CHANNEL :: "units_lib \<Rightarrow> exn + channel" where
  "CHANNEL L = Channel_init L (FromName CHANNEL_NAME) PyNone PyNone PyNone PyNone"

text \<open>
  The channel \<open>CHANNEL\<close> with a given element type, written out.
\<close>

abbreviation test_channel :: "string \<Rightarrow> channel" where
  "test_channel ty \<equiv>
     \<lparr>name = ''X1:TEST-CHANNEL'', ifo = Some ''X1'', system = Some ''TEST'',
      subsystem = Some ''CHANNEL'', signal = None,
      sample_rate = PyNone, unit = PyNone, dtype = PyType ty, model = PyNone\<rparr>"

text \<open>
  A fragment of the units library, for closed instances of the theorems. A quantity in
  Hertz is built from an integer that a float holds exactly; a quantity itself is
  rejected with \<open>TypeError\<close>, as \<open>float\<close> rejects a quantity that has a unit. A unit is
  built from one of three names, and a unit is returned as it is. Every other
  argument is outside the fragment and rejected. The objects of the library are true.
\<close>

definition plain_units :: units_lib where
  "plain_units =
     \<lparr>mk_Quantity_Hz =
        (\<lambda>v. case v of
               PyInt i \<Rightarrow> if \<bar>i\<bar> \<le> 2 ^ 53 then Inr (PyQuantity i) else Inl ValueError
             | _ \<Rightarrow> Inl TypeError),
      mk_Unit =
        (\<lambda>v. case v of
               PyStr s \<Rightarrow> if s \<in> {''m'', ''s'', ''Hz''} then Inr (PyUnitBase s)
                          else Inl ValueError
             | PyUnit s \<Rightarrow> Inr (PyUnit s)
             | PyUnitBase s \<Rightarrow> Inr (PyUnitBase s)
             | _ \<Rightarrow> Inl TypeError),
      ext_truth = (\<lambda>v. True)\<rparr>"

text \<open>
  The components of a channel are those of its name: the invariant of the class.
\<close>

abbreviation derived :: "channel \<Rightarrow> bool" where
  "derived c \<equiv>
     parse_channel_name (Some (name c)) = Inr (ifo c, system c, subsystem c, signal c)"

section \<open>Properties of the parser\<close>

lemma split_upto_none:
  "\<forall>c \<in> set t. \<not> sep c \<Longrightarrow> split_upto sep k t = [t]"
proof (cases k)
  case 0
  then show ?thesis by simp
next
  case (Suc j)
  assume "\<forall>c \<in> set t. \<not> sep c"
  then have d: "dropWhile (\<lambda>c. \<not> sep c) t = []" by simp
  show ?thesis unfolding Suc split_upto.simps d by simp
qed

lemma split_upto_step:
  "\<forall>c \<in> set t. \<not> sep c \<Longrightarrow> sep x \<Longrightarrow>
   split_upto sep (Suc k) (t @ x # rest) = t # split_upto sep k rest"
  by (simp add: dropWhile_append2 takeWhile_append2)

lemma split_upto_nonempty: "split_upto sep k s \<noteq> []"
  by (cases k) (simp_all split: list.splits)

lemma upper_not_colon: "is_upper a \<Longrightarrow> \<not> is_colon a"
  by (auto simp: is_upper_def is_colon_def)

lemma digit_not_colon: "is_digit d \<Longrightarrow> \<not> is_colon d"
  by (auto simp: is_digit_def is_colon_def)

lemma split_colon_ifo:
  assumes "is_upper a" and "is_digit d"
  shows "split_upto is_colon 1 (a # d # CHR '':'' # r) = [[a, d], r]"
proof -
  have "\<forall>c \<in> set [a, d]. \<not> is_colon c"
    using assms by (simp add: upper_not_colon digit_not_colon)
  moreover have "is_colon (CHR '':'')" by (simp add: is_colon_def)
  ultimately have "split_upto is_colon (Suc 0) ([a, d] @ CHR '':'' # r) = [a, d] # split_upto is_colon 0 r"
    by (rule split_upto_step)
  then show ?thesis by simp
qed

lemma re_ifo_match_iff:
  "re_ifo_match n \<longleftrightarrow> (\<exists>a d r. n = a # d # CHR '':'' # r \<and> is_upper a \<and> is_digit d)"
  by (cases n rule: re_ifo_match.cases) auto

lemma parse_ifo_match:
  "is_upper a \<Longrightarrow> is_digit d \<Longrightarrow> parse_ifo (a # d # CHR '':'' # r) = Inr (Some [a, d], r)"
  by (simp add: parse_ifo_def split_colon_ifo del: split_upto.simps One_nat_def)

lemma parse_ifo_nomatch: "\<not> re_ifo_match n \<Longrightarrow> parse_ifo n = Inr (None, n)"
  by (simp add: parse_ifo_def)

lemma parse_ifo_total: "\<exists>p. parse_ifo n = Inr p"
proof (cases "re_ifo_match n")
  case True
  then obtain a d r where "n = a # d # CHR '':'' # r" "is_upper a" "is_digit d"
    by (auto simp: re_ifo_match_iff)
  then show ?thesis by (simp add: parse_ifo_match)
next
  case False
  then show ?thesis by (simp add: parse_ifo_nomatch)
qed

lemma parse_systems_total: "\<exists>sy sb sg. parse_systems i n = Inr (i, sy, sb, sg)"
  using split_upto_nonempty[of is_cchar 3 n]
  by (auto simp: parse_systems_def Let_def split: list.splits)

lemma parse_channel_name_total: "\<exists>p. parse_channel_name nm = Inr p"
proof (cases nm)
  case None
  then show ?thesis by (simp add: parse_channel_name_def)
next
  case (Some n)
  obtain i r where ir: "parse_ifo n = Inr (i, r)"
    using parse_ifo_total[of n] by auto
  obtain sy sb sg where "parse_systems i r = Inr (i, sy, sb, sg)"
    using parse_systems_total by blast
  with ir Some show ?thesis by (simp add: parse_channel_name_def)
qed

lemma parse_systems_three:
  assumes "\<forall>c \<in> set t0. \<not> is_cchar c" and "\<forall>c \<in> set t1. \<not> is_cchar c"
    and "\<forall>c \<in> set t2. \<not> is_cchar c" and "is_cchar s1" and "is_cchar s2"
  shows "split_upto is_cchar 3 (t0 @ s1 # t1 @ s2 # t2) = [t0, t1, t2]"
proof -
  have "split_upto is_cchar 3 (t0 @ s1 # t1 @ s2 # t2) = t0 # split_upto is_cchar 2 (t1 @ s2 # t2)"
    using split_upto_step[OF assms(1) assms(4), of 2] by (simp add: numeral_3_eq_3 numeral_2_eq_2)
  also have "split_upto is_cchar 2 (t1 @ s2 # t2) = t1 # split_upto is_cchar 1 t2"
    using split_upto_step[OF assms(2) assms(5), of 1] by (simp add: numeral_2_eq_2)
  also have "split_upto is_cchar 1 t2 = [t2]"
    using assms(3) by (rule split_upto_none)
  finally show ?thesis .
qed

lemma parse_systems_four:
  assumes "\<forall>c \<in> set t0. \<not> is_cchar c" and "\<forall>c \<in> set t1. \<not> is_cchar c"
    and "\<forall>c \<in> set t2. \<not> is_cchar c" and "is_cchar s1" and "is_cchar s2" and "is_cchar s3"
  shows "split_upto is_cchar 3 (t0 @ s1 # t1 @ s2 # t2 @ s3 # rest) = [t0, t1, t2, rest]"
proof -
  have "split_upto is_cchar 3 (t0 @ s1 # t1 @ s2 # t2 @ s3 # rest)
        = t0 # split_upto is_cchar 2 (t1 @ s2 # t2 @ s3 # rest)"
    using split_upto_step[OF assms(1) assms(4), of 2] by (simp add: numeral_3_eq_3 numeral_2_eq_2)
  also have "split_upto is_cchar 2 (t1 @ s2 # t2 @ s3 # rest) = t1 # split_upto is_cchar 1 (t2 @ s3 # rest)"
    using split_upto_step[OF assms(2) assms(5), of 1] by (simp add: numeral_2_eq_2)
  also have "split_upto is_cchar 1 (t2 @ s3 # rest) = t2 # split_upto is_cchar 0 rest"
    using split_upto_step[OF assms(3) assms(6), of 0] by simp
  finally show ?thesis by simp
qed


lemma parse_systems_ifo_three:
  assumes "\<forall>c \<in> set t0. \<not> is_cchar c" and "\<forall>c \<in> set t1. \<not> is_cchar c"
    and "\<forall>c \<in> set t2. \<not> is_cchar c" and "is_cchar s1" and "is_cchar s2"
  shows "parse_systems i (t0 @ s1 # t1 @ s2 # t2) = Inr (i, Some t0, Some t1, Some t2)"
  by (simp add: parse_systems_def parse_systems_three[OF assms])

lemma parse_systems_ifo_four:
  assumes "\<forall>c \<in> set t0. \<not> is_cchar c" and "\<forall>c \<in> set t1. \<not> is_cchar c"
    and "\<forall>c \<in> set t2. \<not> is_cchar c" and "is_cchar s1" and "is_cchar s2" and "is_cchar s3"
  shows "parse_systems i (t0 @ s1 # t1 @ s2 # t2 @ s3 # rest) = Inr (i, Some t0, Some t1, Some t2)"
  by (simp add: parse_systems_def parse_systems_four[OF assms])

lemma parse_channel_name_match:
  "is_upper a \<Longrightarrow> is_digit d \<Longrightarrow>
   parse_channel_name (Some (a # d # CHR '':'' # r)) = parse_systems (Some [a, d]) r"
  by (simp add: parse_channel_name_def parse_ifo_match)

lemma parse_channel_name_nomatch:
  "n \<noteq> [] \<Longrightarrow> \<not> re_ifo_match n \<Longrightarrow> parse_channel_name (Some n) = parse_systems None n"
  by (simp add: parse_channel_name_def parse_ifo_nomatch)

subsection \<open>Canonical names\<close>

text \<open>
  Claim C1. A name of the canonical form \<open>IFO:SYS-SUB_SIG\<close>, that is an uppercase
  letter, a digit, a colon and three tokens free of \<open>-\<close> and \<open>_\<close> with one such
  character between two tokens, is parsed into exactly the four components
  \<open>(IFO, SYS, SUB, SIG)\<close>; the empty name and the absent name are parsed into four
  absent components. The parser returns in each case, raising nothing.
\<close>

theorem parse_channel_name_canonical:
  assumes "is_upper a" and "is_digit d"
    and "\<forall>c \<in> set sys. \<not> is_cchar c" and "\<forall>c \<in> set sub. \<not> is_cchar c"
    and "\<forall>c \<in> set sg. \<not> is_cchar c" and "is_cchar s1" and "is_cchar s2"
  shows "parse_channel_name (Some ([a, d] @ '':'' @ sys @ [s1] @ sub @ [s2] @ sg))
           = Inr (Some [a, d], Some sys, Some sub, Some sg)
         \<and> parse_channel_name (Some []) = Inr (None, None, None, None)
         \<and> parse_channel_name None = Inr (None, None, None, None)"
proof -
  have "parse_channel_name (Some (a # d # CHR '':'' # (sys @ s1 # sub @ s2 # sg)))
          = parse_systems (Some [a, d]) (sys @ s1 # sub @ s2 # sg)"
    using assms(1,2) by (rule parse_channel_name_match)
  also have "\<dots> = Inr (Some [a, d], Some sys, Some sub, Some sg)"
    using assms(3-7) by (rule parse_systems_ifo_three)
  finally show ?thesis by (simp add: parse_channel_name_def)
qed

theorem parse_channel_name_canonical_witness:
  "is_upper (CHR ''H'') \<and> is_digit (CHR ''1'')
   \<and> list_all (\<lambda>c. \<not> is_cchar c) ''LSC'' \<and> list_all (\<lambda>c. \<not> is_cchar c) ''DARM''
   \<and> list_all (\<lambda>c. \<not> is_cchar c) ''ERR'' \<and> is_cchar (CHR ''-'') \<and> is_cchar (CHR ''_'')
   \<and> parse_channel_name (Some ''H1:LSC-DARM_ERR'')
        = Inr (Some ''H1'', Some ''LSC'', Some ''DARM'', Some ''ERR'')"
proof -
  have h: "is_upper (CHR ''H'')" "is_digit (CHR ''1'')"
    "\<forall>c \<in> set ''LSC''. \<not> is_cchar c" "\<forall>c \<in> set ''DARM''. \<not> is_cchar c"
    "\<forall>c \<in> set ''ERR''. \<not> is_cchar c" "is_cchar (CHR ''-'')" "is_cchar (CHR ''_'')"
    by (simp_all add: is_upper_def is_digit_def is_cchar_def)
  from parse_channel_name_canonical[OF h] h show ?thesis by (simp add: is_cchar_def)
qed

subsection \<open>Names of four tokens and more\<close>

text \<open>
  When the text the tags are taken from has four tokens or more, the split yields the
  first three tokens and the whole text after the third separator as a fourth element,
  which no component of the result reads.
\<close>

lemma parse_channel_name_four_tokens:
  assumes "\<forall>c \<in> set t0. \<not> is_cchar c" and "\<forall>c \<in> set t1. \<not> is_cchar c"
    and "\<forall>c \<in> set t2. \<not> is_cchar c" and "is_cchar s1" and "is_cchar s2" and "is_cchar s3"
    and "r = t0 @ [s1] @ t1 @ [s2] @ t2 @ [s3] @ rest"
  shows "split_upto is_cchar 3 r = [t0, t1, t2, rest]
         \<and> (is_upper a \<and> is_digit d \<longrightarrow>
              parse_channel_name (Some ([a, d] @ '':'' @ r))
                = Inr (Some [a, d], Some t0, Some t1, Some t2))
         \<and> (\<not> re_ifo_match r \<longrightarrow>
              parse_channel_name (Some r) = Inr (None, Some t0, Some t1, Some t2))"
proof -
  have r: "r = t0 @ s1 # t1 @ s2 # t2 @ s3 # rest"
    using assms(7) by simp
  have tags: "split_upto is_cchar 3 r = [t0, t1, t2, rest]"
    unfolding r using assms(1-6) by (rule parse_systems_four)
  have sys: "parse_systems i r = Inr (i, Some t0, Some t1, Some t2)" for i
    unfolding r using assms(1-6) by (rule parse_systems_ifo_four)
  have "r \<noteq> []" using r by simp
  then show ?thesis
    using tags sys by (simp add: parse_channel_name_match parse_channel_name_nomatch)
qed

text \<open>
  Claim C2, at \<open>parse_channel_name('L1:PSL-ISS_PDA_OUT')\<close>. The claim keeps the text
  after the third token in the signal. The split with at most three splits cuts the
  name at the third separator as well, into \<open>PSL\<close>, \<open>ISS\<close>, \<open>PDA\<close> and \<open>OUT\<close>, and
  the signal is \<open>tags[2]\<close>, which is \<open>PDA\<close>: the fourth token \<open>OUT\<close> is lost. A split
  with at most two splits would have kept \<open>PDA_OUT\<close> as the third element.
\<close>

theorem parse_channel_name_drops_fourth_token:
  "parse_channel_name (Some ''L1:PSL-ISS_PDA_OUT'')
     = Inr (Some ''L1'', Some ''PSL'', Some ''ISS'', Some ''PDA'')
   \<and> parse_channel_name (Some ''L1:PSL-ISS_PDA_OUT'')
     \<noteq> Inr (Some ''L1'', Some ''PSL'', Some ''ISS'', Some ''PDA_OUT'')
   \<and> split_upto is_cchar 3 ''PSL-ISS_PDA_OUT'' = [''PSL'', ''ISS'', ''PDA'', ''OUT'']
   \<and> split_upto is_cchar 2 ''PSL-ISS_PDA_OUT'' = [''PSL'', ''ISS'', ''PDA_OUT'']"
  by (simp add: parse_channel_name_def parse_ifo_def parse_systems_def is_upper_def
      is_digit_def is_colon_def is_cchar_def numeral_3_eq_3 numeral_2_eq_2)

subsection \<open>The ifo prefix\<close>

text \<open>
  Claim C3. Of a non-empty name that begins with an uppercase letter, a digit and a
  colon, the ifo is the two characters before the colon and the text after the colon
  is what the tags are taken from; of every other non-empty name the ifo is absent and
  the tags are taken from the whole name.
\<close>

theorem parse_channel_name_ifo:
  "(is_upper a \<and> is_digit d \<longrightarrow>
      parse_channel_name (Some ([a, d] @ '':'' @ r)) = parse_systems (Some [a, d]) r
      \<and> (\<exists>sy sb sg. parse_channel_name (Some ([a, d] @ '':'' @ r)) = Inr (Some [a, d], sy, sb, sg)))
   \<and> (n \<noteq> [] \<and> \<not> (\<exists>a d r. n = [a, d] @ '':'' @ r \<and> is_upper a \<and> is_digit d) \<longrightarrow>
      parse_channel_name (Some n) = parse_systems None n
      \<and> (\<exists>sy sb sg. parse_channel_name (Some n) = Inr (None, sy, sb, sg)))"
proof -
  have m: "parse_channel_name (Some ([a, d] @ '':'' @ r)) = parse_systems (Some [a, d]) r"
    if "is_upper a" "is_digit d"
    using that by (simp add: parse_channel_name_match)
  have nm: "parse_channel_name (Some n) = parse_systems None n"
    if "n \<noteq> []" "\<not> (\<exists>a d r. n = [a, d] @ '':'' @ r \<and> is_upper a \<and> is_digit d)"
    using that by (simp add: parse_channel_name_nomatch re_ifo_match_iff)
  show ?thesis
    using m nm parse_systems_total[of "Some [a, d]" r] parse_systems_total[of None n]
    by metis
qed

theorem parse_channel_name_ifo_witness:
  "is_upper (CHR ''X'') \<and> is_digit (CHR ''1'')
   \<and> parse_channel_name (Some ''X1:TEST-CHANNEL'') = parse_systems (Some ''X1'') ''TEST-CHANNEL''
   \<and> ''x1:TEST'' \<noteq> []
   \<and> \<not> (\<exists>a d r. ''x1:TEST'' = [a, d] @ '':'' @ r \<and> is_upper a \<and> is_digit d)
   \<and> parse_channel_name (Some ''x1:TEST'') = parse_systems None ''x1:TEST''"
proof -
  have h: "is_upper (CHR ''X'')" "is_digit (CHR ''1'')"
    by (simp_all add: is_upper_def is_digit_def)
  have g: "\<not> (\<exists>a d r. ''x1:TEST'' = [a, d] @ '':'' @ r \<and> is_upper a \<and> is_digit d)"
    by (auto simp: is_upper_def)
  from parse_channel_name_ifo[of "CHR ''X''" "CHR ''1''" "''TEST-CHANNEL''" "''x1:TEST''"] h g
  show ?thesis by simp
qed

section \<open>Properties of the channel class\<close>

lemma name_setter_total: "\<exists>c'. name_setter c n = Inr c'"
  using parse_channel_name_total[of "Some n"]
  by (auto simp: name_setter_def split: prod.splits)

lemma name_setter_derived:
  "name_setter c n = Inr c' \<Longrightarrow> name c' = n \<and> derived c'"
  by (auto simp: name_setter_def split: sum.splits prod.splits)


lemma sample_rate_setter_frame:
  "sample_rate_setter L c v = Inr c' \<Longrightarrow>
   name c' = name c \<and> ifo c' = ifo c \<and> system c' = system c \<and> subsystem c' = subsystem c
   \<and> signal c' = signal c \<and> unit c' = unit c \<and> dtype c' = dtype c \<and> model c' = model c"
  by (auto simp: sample_rate_setter_def split: if_splits sum.splits)

lemma unit_setter_frame:
  "unit_setter L c v = Inr c' \<Longrightarrow>
   name c' = name c \<and> ifo c' = ifo c \<and> system c' = system c \<and> subsystem c' = subsystem c
   \<and> signal c' = signal c \<and> sample_rate c' = sample_rate c \<and> dtype c' = dtype c
   \<and> model c' = model c"
  by (auto simp: unit_setter_def split: if_splits sum.splits)

lemma model_setter_frame:
  "model_setter L c v = Inr c' \<Longrightarrow>
   name c' = name c \<and> ifo c' = ifo c \<and> system c' = system c \<and> subsystem c' = subsystem c
   \<and> signal c' = signal c \<and> sample_rate c' = sample_rate c \<and> unit c' = unit c
   \<and> dtype c' = dtype c"
  by (auto simp: model_setter_def split: if_splits sum.splits)

lemma dtype_setter_frame:
  "dtype_setter c v = Inr c' \<Longrightarrow>
   name c' = name c \<and> ifo c' = ifo c \<and> system c' = system c \<and> subsystem c' = subsystem c
   \<and> signal c' = signal c \<and> sample_rate c' = sample_rate c \<and> unit c' = unit c
   \<and> model c' = model c"
  by (auto simp: dtype_setter_def split: if_splits)

lemma dtype_setter_iff:
  "dtype_setter c v = Inr c' \<longleftrightarrow> is_type v \<and> c' = c\<lparr>dtype := v\<rparr>"
  by (auto simp: dtype_setter_def)

lemma dtype_setter_not_type: "\<not> is_type v \<Longrightarrow> dtype_setter c v = Inl TypeError"
  by (simp add: dtype_setter_def)

lemma Channel_init_steps:
  assumes "Channel_init L ch sr u dt m = Inr c"
  shows "\<exists>n sr1 u1 m1 c1 c2 c3 c4.
           name_setter new_object n = Inr c1 \<and> sample_rate_setter L c1 sr1 = Inr c2
           \<and> unit_setter L c2 u1 = Inr c3 \<and> dtype_setter c3 builtin_type = Inr c4
           \<and> model_setter L c4 m1 = Inr c"
  using assms
  by (auto simp: Channel_init_def bind_exn_def Let_def split: channel_arg.splits sum.splits; blast)

lemma Channel_init_derived:
  assumes "Channel_init L ch sr u dt m = Inr c"
  shows "derived c"
proof -
  from Channel_init_steps[OF assms] obtain n sr1 u1 m1 c1 c2 c3 c4 where
    s: "name_setter new_object n = Inr c1" "sample_rate_setter L c1 sr1 = Inr c2"
       "unit_setter L c2 u1 = Inr c3" "dtype_setter c3 builtin_type = Inr c4"
       "model_setter L c4 m1 = Inr c"
    by blast
  have "derived c1" using name_setter_derived[OF s(1)] by blast
  then have "derived c2" using sample_rate_setter_frame[OF s(2)] by simp
  then have "derived c3" using unit_setter_frame[OF s(3)] by simp
  then have "derived c4" using dtype_setter_frame[OF s(4)] by simp
  then show ?thesis using model_setter_frame[OF s(5)] by simp
qed

lemma Channel_init_dtype:
  assumes "Channel_init L ch sr u dt m = Inr c"
  shows "dtype c = builtin_type"
proof -
  from Channel_init_steps[OF assms] obtain c3 c4 m1 where
    s: "dtype_setter c3 builtin_type = Inr c4" "model_setter L c4 m1 = Inr c"
    by blast
  have "dtype c4 = builtin_type" using s(1) by (simp add: dtype_setter_iff)
  then show ?thesis using model_setter_frame[OF s(2)] by simp
qed

lemma Channel_init_dtype_ignored:
  "Channel_init L ch sr u dt m = Channel_init L ch sr u dt' m"
  by (simp add: Channel_init_def split: channel_arg.splits)

lemma Channel_init_copy_name:
  assumes "Channel_init L (FromChannel src) sr u dt m = Inr c"
  shows "name c = name src"
  using assms
  by (auto simp: Channel_init_def bind_exn_def Let_def split: sum.splits
        dest!: name_setter_derived sample_rate_setter_frame unit_setter_frame dtype_setter_frame model_setter_frame)

lemma reachable_derived: "reachable L c \<Longrightarrow> derived c"
proof (induction rule: reachable.induct)
  case (init ch sr u dt m c)
  then show ?case by (rule Channel_init_derived)
next
  case (set_name c n c')
  then show ?case using name_setter_derived by blast
next
  case (set_sample_rate c v c')
  then show ?case using sample_rate_setter_frame[of L c v c'] by simp
next
  case (set_unit c v c')
  then show ?case using unit_setter_frame[of L c v c'] by simp
next
  case (set_dtype c v c')
  then show ?case using dtype_setter_frame[of c v c'] by simp
next
  case (set_model c v c')
  then show ?case using model_setter_frame[of L c v c'] by simp
qed


lemma CHANNEL_value: "CHANNEL L = Inr (test_channel ''type'')"
  by (simp add: CHANNEL_def CHANNEL_NAME_def Channel_init_def bind_exn_def name_setter_def
      parse_channel_name_def parse_ifo_def parse_systems_def is_upper_def is_digit_def
      is_colon_def is_cchar_def numeral_3_eq_3 sample_rate_setter_def unit_setter_def
      dtype_setter_def model_setter_def builtin_type_def new_object_def)

lemma test_channel_reachable: "reachable L (test_channel ''type'')"
  using CHANNEL_value[of L] unfolding CHANNEL_def by (rule reachable.init)


lemma renamed_channel_value:
  "name_setter (test_channel ''type'') ''H1:LSC-DARM_ERR''
     = Inr \<lparr>name = ''H1:LSC-DARM_ERR'', ifo = Some ''H1'', system = Some ''LSC'',
            subsystem = Some ''DARM'', signal = Some ''ERR'',
            sample_rate = PyNone, unit = PyNone, dtype = PyType ''type'', model = PyNone\<rparr>"
  by (simp add: name_setter_def parse_channel_name_def parse_ifo_def parse_systems_def
      is_upper_def is_digit_def is_colon_def is_cchar_def numeral_3_eq_3)

lemma renamed_channel_reachable:
  "reachable L \<lparr>name = ''H1:LSC-DARM_ERR'', ifo = Some ''H1'', system = Some ''LSC'',
            subsystem = Some ''DARM'', signal = Some ''ERR'',
            sample_rate = PyNone, unit = PyNone, dtype = PyType ''type'', model = PyNone\<rparr>"
  using test_channel_reachable renamed_channel_value by (rule reachable.set_name)

subsection \<open>The components follow the name\<close>

text \<open>
  Claim C4. Setting the name of a channel always succeeds and sets the four components
  to the result of the parser on the new name; the constructor sets the name through
  the same setter, and no other setter touches the name or the components. So every
  channel that the constructor and the setters can produce has the components of its
  current name.
\<close>

theorem components_derived_from_name:
  "(\<exists>c'. name_setter c n = Inr c' \<and> name c' = n
         \<and> parse_channel_name (Some n) = Inr (ifo c', system c', subsystem c', signal c'))
   \<and> (reachable L d \<longrightarrow>
        parse_channel_name (Some (name d)) = Inr (ifo d, system d, subsystem d, signal d))"
proof -
  obtain c' where c': "name_setter c n = Inr c'"
    using name_setter_total by blast
  from name_setter_derived[OF c'] c' show ?thesis
    using reachable_derived[of L d] by auto
qed

theorem components_derived_from_name_witness:
  "name_setter (test_channel ''type'') ''H1:LSC-DARM_ERR''
     = Inr \<lparr>name = ''H1:LSC-DARM_ERR'', ifo = Some ''H1'', system = Some ''LSC'',
            subsystem = Some ''DARM'', signal = Some ''ERR'',
            sample_rate = PyNone, unit = PyNone, dtype = PyType ''type'', model = PyNone\<rparr>
   \<and> reachable plain_units
       \<lparr>name = ''H1:LSC-DARM_ERR'', ifo = Some ''H1'', system = Some ''LSC'',
        subsystem = Some ''DARM'', signal = Some ''ERR'',
        sample_rate = PyNone, unit = PyNone, dtype = PyType ''type'', model = PyNone\<rparr>
   \<and> parse_channel_name (Some ''H1:LSC-DARM_ERR'')
        = Inr (Some ''H1'', Some ''LSC'', Some ''DARM'', Some ''ERR'')"
  using components_derived_from_name[where L = plain_units and c = "test_channel ''type''"
      and n = "''H1:LSC-DARM_ERR''"
      and d = "\<lparr>name = ''H1:LSC-DARM_ERR'', ifo = Some ''H1'', system = Some ''LSC'',
        subsystem = Some ''DARM'', signal = Some ''ERR'',
        sample_rate = PyNone, unit = PyNone, dtype = PyType ''type'', model = PyNone\<rparr>"]
    renamed_channel_reachable[of plain_units] renamed_channel_value
  by simp

subsection \<open>Copying a channel\<close>





















subsection \<open>The element type of a channel\<close>

text \<open>
  Claim C6, at \<open>Channel('X1:TEST-CHANNEL', dtype=5)\<close>. The setter of \<open>dtype\<close> raises
  \<open>TypeError\<close> on every value that is not a type (\<open>dtype_setter_not_type\<close>), but the
  constructor never hands its \<open>dtype\<close> argument to the setter: with the argument \<open>5\<close>,
  which is not a type, the construction succeeds and the element type is the builtin
  \<open>type\<close>.
\<close>

theorem init_accepts_non_type_dtype:
  "\<not> is_type (PyInt 5)
   \<and> Channel_init L (FromName CHANNEL_NAME) PyNone PyNone (PyInt 5) PyNone
       = Inr (test_channel ''type'')"
  using CHANNEL_value[of L] Channel_init_dtype_ignored[of L _ _ _ PyNone _ "PyInt 5"]
  by (simp add: CHANNEL_def)




text \<open>
  Claim C10. The constructor discards its \<open>dtype\<close> argument: the outcome of a
  construction does not depend on it, nor on the \<open>dtype\<close> of the channel that is
  copied, and after every construction that returns the element type is the builtin
  \<open>type\<close>.
\<close>

theorem init_discards_dtype:
  "Channel_init L ch sr u dt m = Channel_init L ch sr u dt' m
   \<and> Channel_init L (FromChannel (src\<lparr>dtype := ty\<rparr>)) sr u dt m
       = Channel_init L (FromChannel src) sr u dt m
   \<and> (Channel_init L ch sr u dt m = Inr c \<longrightarrow> dtype c = builtin_type)"
proof -
  have "Channel_init L (FromChannel (src\<lparr>dtype := ty\<rparr>)) sr u dt m
          = Channel_init L (FromChannel src) sr u dt m"
    by (simp add: Channel_init_def)
  then show ?thesis
    using Channel_init_dtype[of L ch sr u dt m c] Channel_init_dtype_ignored[of L ch sr u dt m dt']
    by simp
qed

theorem init_discards_dtype_witness:
  "Channel_init plain_units (FromChannel (test_channel ''float'')) PyNone PyNone (PyType ''int'') PyNone
     = Inr (test_channel ''type'')
   \<and> Channel_init plain_units (FromChannel (test_channel ''float'')) PyNone PyNone (PyType ''int'') PyNone
     = Channel_init plain_units (FromChannel (test_channel ''float'')) PyNone PyNone (PyStr ''x'') PyNone
   \<and> dtype (test_channel ''type'') = builtin_type"
proof -
  have e: "Channel_init plain_units (FromChannel (test_channel ''float'')) PyNone PyNone (PyType ''int'') PyNone
     = Inr (test_channel ''type'')"
    by (simp add: Channel_init_def bind_exn_def name_setter_def py_or_def
      parse_channel_name_def parse_ifo_def parse_systems_def is_upper_def is_digit_def
      is_colon_def is_cchar_def numeral_3_eq_3 sample_rate_setter_def unit_setter_def
      dtype_setter_def model_setter_def builtin_type_def new_object_def)
  note t = init_discards_dtype[where L = plain_units and ch = "FromChannel (test_channel ''float'')"
      and sr = PyNone and u = PyNone and dt = "PyType ''int''" and m = PyNone
      and dt' = "PyStr ''x''" and src = "test_channel ''float''" and ty = "PyType ''float''"
      and c = "test_channel ''type''"]
  from t have a: "Channel_init plain_units (FromChannel (test_channel ''float'')) PyNone PyNone (PyType ''int'') PyNone
     = Channel_init plain_units (FromChannel (test_channel ''float'')) PyNone PyNone (PyStr ''x'') PyNone"
    by (rule conjunct1)
  from t e have b: "dtype (test_channel ''type'') = builtin_type"
    by blast
  from e a b show ?thesis by (intro conjI)
qed

section \<open>Properties of fetch\<close>

text \<open>
  Without a host the directory is consulted: the host is the one of the directory and
  the port is the given one, or the one of the directory when none is given.
\<close>

lemma fetch_without_host:
  "\<not> truthy L host \<Longrightarrow>
   fetch L hosts connect c start stop host port =
     (case hosts (ifo c) of
        None \<Rightarrow> Inl KeyError
      | Some (dhost, dport) \<Rightarrow> connect dhost (py_or L port dport) start stop (name c))"
  by (simp add: fetch_def bind_exn_def py_or_def split: option.splits)

text \<open>
  Claim C8, at \<open>fetch(start, end, host='nds.ligo.caltech.edu')\<close>. With a host and
  without a port the condition \<open>not host or port\<close> is false: the directory is not
  consulted and the connection is opened with the port \<open>None\<close>, whatever port the
  directory has for the ifo of the channel.
\<close>

theorem fetch_host_without_port:
  "fetch L hosts connect c start stop (PyStr ''nds.ligo.caltech.edu'') PyNone
     = connect (PyStr ''nds.ligo.caltech.edu'') PyNone start stop (name c)"
  by (simp add: fetch_def bind_exn_def)

theorem fetch_host_without_port_witness:
  "fetch plain_units [Some ''X1'' \<mapsto> (PyStr ''localhost'', PyInt 31200)]
     (\<lambda>h p s e n. Inr (h, p, n)) (test_channel ''type'') (0::nat) 1
     (PyStr ''nds.ligo.caltech.edu'') PyNone
     = Inr (PyStr ''nds.ligo.caltech.edu'', PyNone, ''X1:TEST-CHANNEL'')"
  using fetch_host_without_port[of plain_units "[Some ''X1'' \<mapsto> (PyStr ''localhost'', PyInt 31200)]"
      "\<lambda>h p s e n. Inr (h, p, n)" "test_channel ''type''" "0::nat" 1]
  by simp

end
